theory Spec2Isabelle
  imports Main
begin

section \<open>Values and errors\<close>

text \<open>
  The request bodies built by \<^verbatim>\<open>event_generator.py\<close> are Python dictionaries that are
  serialised to JSON. A dictionary is modelled as a map from keys to values, so that
  equality of two bodies is Python's dictionary equality (insertion order plays no role).
\<close>

datatype json =
    JNull
  | JBool bool
  | JInt int
  | JStr string
  | JList "json list"
  | JObj "string \<Rightarrow> json option"

type_synonym body = "string \<Rightarrow> json option"

text \<open>
  The exceptions the modelled code can raise. \<open>KeyError k\<close> is Python's error for a
  missing dictionary key \<open>k\<close>; \<open>ValueError s\<close> is the error raised by
  \<^verbatim>\<open>datetime.datetime.fromisoformat\<close> on the string \<open>s\<close> (the date-parsing error).
  \<open>NotFoundError\<close>, \<open>LookupError\<close> and \<open>TransportError\<close> belong to the events component.
\<close>

datatype error =
    KeyError string
  | ValueError string
  | IndexError
  | NotFoundError
  | LookupError
  | TransportError nat

definition bind :: "error + 'a \<Rightarrow> ('a \<Rightarrow> error + 'b) \<Rightarrow> error + 'b" where
  "bind r f = (case r of Inl e \<Rightarrow> Inl e | Inr v \<Rightarrow> f v)"

section \<open>Event parameters\<close>

text \<open>
  \<^verbatim>\<open>EventParameters\<close> and \<^verbatim>\<open>PartialEventParameters\<close> are \<^verbatim>\<open>TypedDict\<close>s: at run time
  both are plain dictionaries from field names to strings, and the code tests the
  presence of a field by key membership. The two classes differ only in which keys
  are required.
\<close>

type_synonym params = "string \<Rightarrow> string option"

definition is_EventParameters :: "params \<Rightarrow> bool" where
  "is_EventParameters p =
     (''indico_event_id'' \<in> dom p \<and> ''zoom_url'' \<in> dom p \<and> ''subject'' \<in> dom p \<and>
      ''start_time'' \<in> dom p \<and> ''end_time'' \<in> dom p)"

definition is_PartialEventParameters :: "params \<Rightarrow> bool" where
  "is_PartialEventParameters p = (''indico_event_id'' \<in> dom p)"

text \<open>\<^verbatim>\<open>d[k]\<close>: raises \<^verbatim>\<open>KeyError\<close> when the key is missing.\<close>

definition getitem :: "params \<Rightarrow> string \<Rightarrow> error + string" where
  "getitem p k = (case p k of None \<Rightarrow> Inl (KeyError k) | Some v \<Rightarrow> Inr v)"

text \<open>\<^verbatim>\<open>d.get(k, default)\<close>.\<close>

definition get_default :: "params \<Rightarrow> string \<Rightarrow> string \<Rightarrow> string" where
  "get_default p k d = (case p k of None \<Rightarrow> d | Some v \<Rightarrow> v)"

section \<open>The event body codec\<close>

text \<open>
  \<^verbatim>\<open>datetime.datetime.fromisoformat\<close> and \<^verbatim>\<open>datetime.isoformat\<close> belong to the Python
  standard library, not to this repository, and which strings the parser accepts depends
  on the interpreter's version. The codec therefore takes both as parameters:
  \<open>fromiso s = None\<close> stands for \<^verbatim>\<open>fromisoformat(s)\<close> raising \<^verbatim>\<open>ValueError\<close>.
\<close>

definition parse_date :: "(string \<Rightarrow> 'd option) \<Rightarrow> string \<Rightarrow> error + 'd" where
  "parse_date fromiso s = (case fromiso s of None \<Rightarrow> Inl (ValueError s) | Some d \<Rightarrow> Inr d)"

definition body_part :: "string \<Rightarrow> json" where
  "body_part url =
     JObj [''contentType'' \<mapsto> JStr ''text'',
           ''content'' \<mapsto> JStr (''Zoom URL: '' @ url)]"

definition location_part :: "string \<Rightarrow> json" where
  "location_part url =
     JObj [''displayName'' \<mapsto> JStr url,
           ''locationType'' \<mapsto> JStr ''default'',
           ''uniqueIdType'' \<mapsto> JStr ''private'',
           ''uniqueId'' \<mapsto> JStr url]"

definition time_part :: "string \<Rightarrow> string \<Rightarrow> json" where
  "time_part dt tz = JObj [''dateTime'' \<mapsto> JStr dt, ''timeZone'' \<mapsto> JStr tz]"

definition subject_part :: "string \<Rightarrow> string \<Rightarrow> json" where
  "subject_part eid subj = JStr (''['' @ eid @ ''] '' @ subj)"

text \<open>
  \<^verbatim>\<open>create_event_body\<close>: the dictionary display is evaluated from left to right, so the
  first failing lookup or parse decides the exception.
\<close>

definition create_event_body ::
  "(string \<Rightarrow> 'd option) \<Rightarrow> ('d \<Rightarrow> string) \<Rightarrow> params \<Rightarrow> error + body" where
  "create_event_body fromiso isoformat event_parameters =
     (let timezone = get_default event_parameters ''timezone'' ''Europe/Zurich'' in
      bind (getitem event_parameters ''indico_event_id'') (\<lambda>eid.
      bind (getitem event_parameters ''subject'') (\<lambda>subj.
      bind (getitem event_parameters ''zoom_url'') (\<lambda>url.
      bind (getitem event_parameters ''start_time'') (\<lambda>st.
      bind (parse_date fromiso st) (\<lambda>sd.
      bind (getitem event_parameters ''end_time'') (\<lambda>et.
      bind (parse_date fromiso et) (\<lambda>ed.
      Inr [''subject'' \<mapsto> subject_part eid subj,
           ''body'' \<mapsto> body_part url,
           ''start'' \<mapsto> time_part (isoformat sd) timezone,
           ''end'' \<mapsto> time_part (isoformat ed) timezone,
           ''location'' \<mapsto> location_part url,
           ''attendees'' \<mapsto> JList [],
           ''allowNewTimeProposals'' \<mapsto> JBool False,
           ''isOnlineMeeting'' \<mapsto> JBool True,
           ''onlineMeetingProvider'' \<mapsto> JStr ''unknown'',
           ''onlineMeetingUrl'' \<mapsto> JStr url]))))))))"

text \<open>
  \<^verbatim>\<open>create_partial_event_body\<close>: four guarded \<^verbatim>\<open>event.update({...})\<close> statements in
  sequence; \<^verbatim>\<open>update\<close> is map addition.
\<close>

definition update_zoom_url :: "params \<Rightarrow> body \<Rightarrow> error + body" where
  "update_zoom_url event_parameters event =
     (if ''zoom_url'' \<in> dom event_parameters then
        bind (getitem event_parameters ''zoom_url'') (\<lambda>url.
        Inr (event ++ [''body'' \<mapsto> body_part url,
                       ''location'' \<mapsto> location_part url,
                       ''onlineMeetingUrl'' \<mapsto> JStr url]))
      else Inr event)"

definition update_subject :: "params \<Rightarrow> body \<Rightarrow> error + body" where
  "update_subject event_parameters event =
     (if ''subject'' \<in> dom event_parameters then
        bind (getitem event_parameters ''indico_event_id'') (\<lambda>eid.
        bind (getitem event_parameters ''subject'') (\<lambda>subj.
        Inr (event ++ [''subject'' \<mapsto> subject_part eid subj])))
      else Inr event)"

definition update_start_time ::
  "(string \<Rightarrow> 'd option) \<Rightarrow> ('d \<Rightarrow> string) \<Rightarrow> string \<Rightarrow> params \<Rightarrow> body \<Rightarrow> error + body" where
  "update_start_time fromiso isoformat timezone event_parameters event =
     (if ''start_time'' \<in> dom event_parameters then
        bind (getitem event_parameters ''start_time'') (\<lambda>st.
        bind (parse_date fromiso st) (\<lambda>sd.
        Inr (event ++ [''start'' \<mapsto> time_part (isoformat sd) timezone])))
      else Inr event)"

definition update_end_time ::
  "(string \<Rightarrow> 'd option) \<Rightarrow> ('d \<Rightarrow> string) \<Rightarrow> string \<Rightarrow> params \<Rightarrow> body \<Rightarrow> error + body" where
  "update_end_time fromiso isoformat timezone event_parameters event =
     (if ''end_time'' \<in> dom event_parameters then
        bind (getitem event_parameters ''end_time'') (\<lambda>et.
        bind (parse_date fromiso et) (\<lambda>ed.
        Inr (event ++ [''end'' \<mapsto> time_part (isoformat ed) timezone])))
      else Inr event)"

definition create_partial_event_body ::
  "(string \<Rightarrow> 'd option) \<Rightarrow> ('d \<Rightarrow> string) \<Rightarrow> params \<Rightarrow> error + body" where
  "create_partial_event_body fromiso isoformat event_parameters =
     (let timezone = get_default event_parameters ''timezone'' ''Europe/Zurich'' in
      bind (update_zoom_url event_parameters Map.empty) (\<lambda>event1.
      bind (update_subject event_parameters event1) (\<lambda>event2.
      bind (update_start_time fromiso isoformat timezone event_parameters event2) (\<lambda>event3.
      update_end_time fromiso isoformat timezone event_parameters event3))))"

section \<open>A concrete date parser for evaluation\<close>

text \<open>
  For evaluating the codec on concrete parameters, the following instance implements the
  seconds-precision form \<^verbatim>\<open>YYYY-MM-DD*HH:MM:SS\<close> of the formats that the Python
  documentation gives for \<^verbatim>\<open>datetime.fromisoformat\<close> (\<^verbatim>\<open>*\<close> is any single character),
  with the range checks of the \<^verbatim>\<open>datetime\<close> constructor, and the matching output of
  \<^verbatim>\<open>datetime.isoformat\<close> for a naive time stamp without microseconds. Every other string,
  the empty string among them, is rejected by this instance; interpreter versions differ
  on strings outside this form. The general theorems below hold for any parser and
  serialiser.
\<close>

record datetime =
  year :: nat
  month :: nat
  day :: nat
  hour :: nat
  minute :: nat
  second :: nat

definition digit_val :: "char \<Rightarrow> nat option" where
  "digit_val c =
     (let n = (of_char c :: nat) in if 48 \<le> n \<and> n \<le> 57 then Some (n - 48) else None)"

fun parse_digits_acc :: "nat \<Rightarrow> string \<Rightarrow> nat option" where
  "parse_digits_acc acc [] = Some acc"
| "parse_digits_acc acc (c # cs) =
     (case digit_val c of None \<Rightarrow> None | Some v \<Rightarrow> parse_digits_acc (10 * acc + v) cs)"

definition parse_digits :: "string \<Rightarrow> nat option" where
  "parse_digits s = parse_digits_acc 0 s"

definition is_leap :: "nat \<Rightarrow> bool" where
  "is_leap y = (y mod 4 = 0 \<and> (y mod 100 \<noteq> 0 \<or> y mod 400 = 0))"

definition days_in_month :: "nat \<Rightarrow> nat \<Rightarrow> nat" where
  "days_in_month y m =
     (if m = 2 then (if is_leap y then 29 else 28)
      else if m = 4 \<or> m = 6 \<or> m = 9 \<or> m = 11 then 30 else 31)"

definition fromisoformat_basic :: "string \<Rightarrow> datetime option" where
  "fromisoformat_basic s =
     (if length s = 19 \<and> s ! 4 = CHR ''-'' \<and> s ! 7 = CHR ''-'' \<and>
         s ! 13 = CHR '':'' \<and> s ! 16 = CHR '':'' then
        (case (parse_digits (take 4 s), parse_digits (take 2 (drop 5 s)),
               parse_digits (take 2 (drop 8 s)), parse_digits (take 2 (drop 11 s)),
               parse_digits (take 2 (drop 14 s)), parse_digits (take 2 (drop 17 s))) of
           (Some y, Some m, Some d, Some h, Some mi, Some se) \<Rightarrow>
             if 1 \<le> y \<and> 1 \<le> m \<and> m \<le> 12 \<and> 1 \<le> d \<and> d \<le> days_in_month y m \<and>
                h < 24 \<and> mi < 60 \<and> se < 60
             then Some \<lparr>year = y, month = m, day = d, hour = h, minute = mi, second = se\<rparr>
             else None
         | _ \<Rightarrow> None)
      else None)"

definition digit_char :: "nat \<Rightarrow> char" where
  "digit_char n = ''0123456789'' ! (n mod 10)"

definition pad2 :: "nat \<Rightarrow> string" where
  "pad2 n = [digit_char (n div 10), digit_char n]"

definition pad4 :: "nat \<Rightarrow> string" where
  "pad4 n =
     [digit_char (n div 1000), digit_char (n div 100), digit_char (n div 10), digit_char n]"

definition isoformat_basic :: "datetime \<Rightarrow> string" where
  "isoformat_basic d =
     pad4 (year d) @ ''-'' @ pad2 (month d) @ ''-'' @ pad2 (day d) @ ''T'' @
     pad2 (hour d) @ '':'' @ pad2 (minute d) @ '':'' @ pad2 (second d)"

section \<open>The events component\<close>

text \<open>
  The classes \<^verbatim>\<open>EventsComponent\<close> and \<^verbatim>\<open>CERNEventsComponents\<close> and the API clients they
  call are exercised by the tests of the repository, but their source files
  (\<^verbatim>\<open>components/events/events_component.py\<close>, \<^verbatim>\<open>components/events/cern_events_component.py\<close>,
  \<^verbatim>\<open>ms_api_client.py\<close>) are not part of the sources at hand. This section models them from
  the specification. The provider is a state machine that answers one request at a time;
  the world of a call is the provider's state together with the requests issued so far.
\<close>

text \<open>Modelled from the spec: the four verbs of the transport facade (section 6); the
  client classes that implement \<^verbatim>\<open>MSClientInterface\<close> are missing.\<close>

datatype http_method = GET | POST | PATCH | DELETE

text \<open>Modelled from the spec: the arguments of the transport facade's
  \<^verbatim>\<open>request(method, path, query_params?, json_body?, extra_headers?)\<close> (section 6).\<close>

record request =
  req_method :: http_method
  req_path :: string
  req_query :: params
  req_body :: "body option"
  req_headers :: params

text \<open>Modelled from the spec: the provider behind the transport facade, a black box that
  returns the decoded JSON of a response or fails with a transport or authentication
  error, and may change its state.\<close>

type_synonym 's provider = "'s \<Rightarrow> request \<Rightarrow> (error + json) \<times> 's"

type_synonym 's world = "'s \<times> request list"

text \<open>Modelled from the spec: one round trip through the transport facade (missing
  \<^verbatim>\<open>ms_api_client.py\<close>); the request is appended to the log of issued requests.\<close>

definition make_request ::
  "'s provider \<Rightarrow> request \<Rightarrow> 's world \<Rightarrow> (error + json) \<times> 's world" where
  "make_request prov r w =
     (case prov (fst w) r of (response, s') \<Rightarrow> (response, (s', snd w @ [r])))"

text \<open>Modelled from the spec: the path \<^verbatim>\<open>/users/{user_id}/calendar/events\<close> of the events
  collection (section 6), built in the missing \<^verbatim>\<open>events_component.py\<close>.\<close>

definition events_path :: "string \<Rightarrow> string" where
  "events_path user_id = ''/users/'' @ user_id @ ''/calendar/events''"

text \<open>Modelled from the spec: the path \<^verbatim>\<open>/users/{user_id}/calendar/events/{event_id}\<close> of one
  event (section 6), built in the missing \<^verbatim>\<open>events_component.py\<close>.\<close>

definition event_path :: "string \<Rightarrow> string \<Rightarrow> string" where
  "event_path user_id event_id = events_path user_id @ ''/'' @ event_id"

text \<open>Modelled from the spec: the request of \<^verbatim>\<open>list_events\<close> (section 4.2), a GET on the
  events collection with the caller's headers; missing \<^verbatim>\<open>events_component.py\<close>.\<close>

definition list_request :: "string \<Rightarrow> params \<Rightarrow> params \<Rightarrow> request" where
  "list_request user_id parameters extra_headers =
     \<lparr>req_method = GET, req_path = events_path user_id, req_query = parameters,
      req_body = None, req_headers = extra_headers\<rparr>"

text \<open>Modelled from the spec: the request of \<^verbatim>\<open>get_event\<close> (section 4.2), a GET on one
  event; missing \<^verbatim>\<open>events_component.py\<close>.\<close>

definition get_request :: "string \<Rightarrow> string \<Rightarrow> params \<Rightarrow> request" where
  "get_request user_id event_id extra_headers =
     \<lparr>req_method = GET, req_path = event_path user_id event_id, req_query = Map.empty,
      req_body = None, req_headers = extra_headers\<rparr>"

text \<open>Modelled from the spec: the request of \<^verbatim>\<open>create_event\<close> (section 4.2), a POST to the
  events collection; missing \<^verbatim>\<open>events_component.py\<close>.\<close>

definition post_request :: "string \<Rightarrow> body \<Rightarrow> params \<Rightarrow> request" where
  "post_request user_id b extra_headers =
     \<lparr>req_method = POST, req_path = events_path user_id, req_query = Map.empty,
      req_body = Some b, req_headers = extra_headers\<rparr>"



text \<open>Modelled from the spec: \<^verbatim>\<open>list_events\<close> of the missing \<^verbatim>\<open>events_component.py\<close>
  (section 4.2); it returns the raw provider JSON.\<close>

definition list_events ::
  "'s provider \<Rightarrow> string \<Rightarrow> params \<Rightarrow> params \<Rightarrow> 's world \<Rightarrow> (error + json) \<times> 's world" where
  "list_events prov user_id parameters extra_headers w =
     make_request prov (list_request user_id parameters extra_headers) w"

text \<open>Modelled from the spec: \<^verbatim>\<open>get_event\<close> of the missing \<^verbatim>\<open>events_component.py\<close>
  (section 4.2).\<close>

definition get_event ::
  "'s provider \<Rightarrow> string \<Rightarrow> string \<Rightarrow> params \<Rightarrow> 's world \<Rightarrow> (error + json) \<times> 's world" where
  "get_event prov user_id event_id extra_headers w =
     make_request prov (get_request user_id event_id extra_headers) w"

text \<open>Modelled from the spec: \<^verbatim>\<open>create_event\<close> of the missing \<^verbatim>\<open>events_component.py\<close>
  (section 4.2): the body comes from \<^verbatim>\<open>create_event_body\<close>, whose error surfaces before any
  request is made.\<close>

definition create_event ::
  "'s provider \<Rightarrow> (string \<Rightarrow> 'd option) \<Rightarrow> ('d \<Rightarrow> string) \<Rightarrow> string \<Rightarrow> params \<Rightarrow> params \<Rightarrow>
   's world \<Rightarrow> (error + json) \<times> 's world" where
  "create_event prov fromiso isoformat user_id event_parameters extra_headers w =
     (case create_event_body fromiso isoformat event_parameters of
        Inl e \<Rightarrow> (Inl e, w)
      | Inr b \<Rightarrow> make_request prov (post_request user_id b extra_headers) w)"



text \<open>Modelled from the spec: the \<^verbatim>\<open>@odata.count\<close> field that a list response carries
  (section 6), read in the missing \<^verbatim>\<open>cern_events_component.py\<close>. The spec says nothing
  about a response without the field; the model raises \<^verbatim>\<open>KeyError\<close> there.\<close>

definition odata_count :: "json \<Rightarrow> error + int" where
  "odata_count response =
     (case response of
        JObj m \<Rightarrow>
          (case m ''@odata.count'' of
             Some (JInt n) \<Rightarrow> Inr n
           | _ \<Rightarrow> Inl (KeyError ''@odata.count''))
      | _ \<Rightarrow> Inl (KeyError ''@odata.count''))"

text \<open>Modelled from the spec: the \<^verbatim>\<open>value\<close> sequence of a list response (section 6), read
  in the missing \<^verbatim>\<open>cern_events_component.py\<close>.\<close>

definition value_list :: "json \<Rightarrow> json list option" where
  "value_list response =
     (case response of
        JObj m \<Rightarrow> (case m ''value'' of Some (JList xs) \<Rightarrow> Some xs | _ \<Rightarrow> None)
      | _ \<Rightarrow> None)"

text \<open>Modelled from the spec: \<^verbatim>\<open>value[0]\<close>, the first listed event (section 4.3, step 1),
  of the missing \<^verbatim>\<open>cern_events_component.py\<close>; Python's lookup errors where there is none.\<close>

definition first_value :: "json \<Rightarrow> error + json" where
  "first_value response =
     (case value_list response of
        None \<Rightarrow> Inl (KeyError ''value'')
      | Some [] \<Rightarrow> Inl IndexError
      | Some (x # xs) \<Rightarrow> Inr x)"

text \<open>Modelled from the spec: \<^verbatim>\<open>get_event_by_zoom_id\<close> of the missing
  \<^verbatim>\<open>cern_events_component.py\<close> (section 4.3, step 1): list the events with a query built
  from the zoom id, fail with \<^verbatim>\<open>NotFoundError\<close> when the count is 0, otherwise return the
  first event of \<^verbatim>\<open>value\<close>. The spec leaves the query open; it is the parameter
  \<open>zoom_query\<close>.\<close>

definition get_event_by_zoom_id ::
  "'s provider \<Rightarrow> (string \<Rightarrow> params) \<Rightarrow> string \<Rightarrow> string \<Rightarrow> params \<Rightarrow> 's world \<Rightarrow>
   (error + json) \<times> 's world" where
  "get_event_by_zoom_id prov zoom_query user_id zoom_id extra_headers w =
     (case list_events prov user_id (zoom_query zoom_id) extra_headers w of
        (Inl e, w') \<Rightarrow> (Inl e, w')
      | (Inr response, w') \<Rightarrow>
          (case odata_count response of
             Inl e \<Rightarrow> (Inl e, w')
           | Inr count \<Rightarrow>
               if count = 0 then (Inl NotFoundError, w') else (first_value response, w')))"




text \<open>Modelled from the spec: the test whether a property id contains \<^verbatim>\<open>Name ZoomId\<close>
  (sections 3 and 8), of the missing \<^verbatim>\<open>cern_events_component.py\<close>; \<open>starts_with\<close> is its
  prefix test.\<close>

fun starts_with :: "string \<Rightarrow> string \<Rightarrow> bool" where
  "starts_with [] s = True"
| "starts_with (c # cs) [] = False"
| "starts_with (c # cs) (d # ds) = (c = d \<and> starts_with cs ds)"

text \<open>Modelled from the spec: a property id matches when it contains the fixed name
  (sections 3 and 8); missing \<^verbatim>\<open>cern_events_component.py\<close>.\<close>

fun contains_substring :: "string \<Rightarrow> string \<Rightarrow> bool" where
  "contains_substring pat [] = (pat = [])"
| "contains_substring pat (c # cs) = (starts_with pat (c # cs) \<or> contains_substring pat cs)"

text \<open>Modelled from the spec: an entry of \<^verbatim>\<open>singleValueExtendedProperties\<close> whose \<^verbatim>\<open>id\<close>
  matches the fixed naming pattern for the zoom id (section 4.3, step 4); missing
  \<^verbatim>\<open>cern_events_component.py\<close>.\<close>

definition is_zoom_id_entry :: "json \<Rightarrow> bool" where
  "is_zoom_id_entry entry =
     (case entry of
        JObj e \<Rightarrow>
          (case e ''id'' of
             Some (JStr i) \<Rightarrow> contains_substring ''Name ZoomId'' i
           | _ \<Rightarrow> False)
      | _ \<Rightarrow> False)"

text \<open>Modelled from the spec: the \<^verbatim>\<open>value\<close> of an extended-property entry (section 3);
  missing \<^verbatim>\<open>cern_events_component.py\<close>.\<close>

definition entry_value :: "json \<Rightarrow> error + string" where
  "entry_value entry =
     (case entry of
        JObj e \<Rightarrow> (case e ''value'' of Some (JStr v) \<Rightarrow> Inr v | _ \<Rightarrow> Inl LookupError)
      | _ \<Rightarrow> Inl LookupError)"

text \<open>Modelled from the spec: the optional \<^verbatim>\<open>singleValueExtendedProperties\<close> sequence of a
  \<^verbatim>\<open>ProviderEvent\<close> (section 3); missing \<^verbatim>\<open>cern_events_component.py\<close>.\<close>

definition extended_properties :: "json \<Rightarrow> json list option" where
  "extended_properties event =
     (case event of
        JObj m \<Rightarrow>
          (case m ''singleValueExtendedProperties'' of
             Some (JList ps) \<Rightarrow> Some ps
           | _ \<Rightarrow> None)
      | _ \<Rightarrow> None)"

text \<open>Modelled from the spec: the scan of the extended properties for the zoom id
  (section 4.3, step 4), of the missing \<^verbatim>\<open>cern_events_component.py\<close>: the value of the first
  matching entry, a lookup error when the collection is absent or nothing matches.\<close>

definition zoom_id_property :: "json \<Rightarrow> error + string" where
  "zoom_id_property event =
     (case extended_properties event of
        None \<Rightarrow> Inl LookupError
      | Some ps \<Rightarrow>
          (case find is_zoom_id_entry ps of
             None \<Rightarrow> Inl LookupError
           | Some entry \<Rightarrow> entry_value entry))"

text \<open>Modelled from the spec: \<^verbatim>\<open>get_event_zoom_id\<close> of the missing
  \<^verbatim>\<open>cern_events_component.py\<close> (section 4.3, step 4): GET the event by its provider id, then
  read the zoom id from its extended properties.\<close>

definition get_event_zoom_id ::
  "'s provider \<Rightarrow> string \<Rightarrow> string \<Rightarrow> params \<Rightarrow> 's world \<Rightarrow> (error + string) \<times> 's world" where
  "get_event_zoom_id prov user_id event_id extra_headers w =
     (case get_event prov user_id event_id extra_headers w of
        (Inl e, w') \<Rightarrow> (Inl e, w')
      | (Inr event, w') \<Rightarrow> (zoom_id_property event, w'))"

section \<open>Vocabulary of the properties\<close>

text \<open>The four keys that only \<^verbatim>\<open>create_event_body\<close> sets, always to the same constants.\<close>

definition fixed_constant_fields :: "string set" where
  "fixed_constant_fields =
     {''attendees'', ''allowNewTimeProposals'', ''isOnlineMeeting'', ''onlineMeetingProvider''}"

definition partial_fields :: "string set" where
  "partial_fields =
     {''subject'', ''body'', ''start'', ''end'', ''location'', ''onlineMeetingUrl''}"

definition without_keys :: "body \<Rightarrow> string set \<Rightarrow> body" where
  "without_keys b ks = (\<lambda>k. if k \<in> ks then None else b k)"

definition minus_fixed :: "error + body \<Rightarrow> error + body" where
  "minus_fixed r =
     (case r of Inl e \<Rightarrow> Inl e | Inr b \<Rightarrow> Inr (without_keys b fixed_constant_fields))"

text \<open>A date field is acceptable when it is absent or the parser accepts its value.\<close>

definition date_ok :: "(string \<Rightarrow> 'd option) \<Rightarrow> params \<Rightarrow> string \<Rightarrow> bool" where
  "date_ok fromiso p k = (case p k of None \<Rightarrow> True | Some t \<Rightarrow> fromiso t \<noteq> None)"

definition raises_date_error :: "error + body \<Rightarrow> bool" where
  "raises_date_error r = (case r of Inl (ValueError s) \<Rightarrow> True | _ \<Rightarrow> False)"

definition returns_body :: "error + body \<Rightarrow> bool" where
  "returns_body r = (case r of Inl e \<Rightarrow> False | Inr b \<Rightarrow> True)"

text \<open>
  The characters of the date and time representations of ISO 8601: the digits, the
  separators \<^verbatim>\<open>-\<close>, \<^verbatim>\<open>:\<close>, \<^verbatim>\<open>.\<close> and \<^verbatim>\<open>,\<close>, the sign \<^verbatim>\<open>+\<close> and the designators \<^verbatim>\<open>T\<close>, \<^verbatim>\<open>W\<close>
  and \<^verbatim>\<open>Z\<close>. A string with any other character is not valid ISO-8601.
\<close>

definition iso8601_alphabet :: string where
  "iso8601_alphabet = ''0123456789-:.,+TWZ''"

definition in_iso8601_alphabet :: "string \<Rightarrow> bool" where
  "in_iso8601_alphabet s = list_all (\<lambda>c. c \<in> set iso8601_alphabet) s"

text \<open>\<^verbatim>\<open>b[k][f]\<close> for a nested object, \<open>None\<close> when either level is missing.\<close>

definition sub_field :: "body \<Rightarrow> string \<Rightarrow> string \<Rightarrow> json option" where
  "sub_field b k f = (case b k of Some (JObj m) \<Rightarrow> m f | _ \<Rightarrow> None)"

text \<open>
  The key set that the specification assigns to a partial body: each present field
  contributes the keys it has in the full-create mapping.
\<close>

definition spec_partial_keys :: "params \<Rightarrow> string set" where
  "spec_partial_keys p =
     (if ''zoom_url'' \<in> dom p then {''body'', ''location'', ''onlineMeetingUrl''} else {}) \<union>
     (if ''subject'' \<in> dom p then {''subject''} else {}) \<union>
     (if ''start_time'' \<in> dom p then {''start''} else {}) \<union>
     (if ''end_time'' \<in> dom p then {''end''} else {})"

text \<open>A result without its \<^verbatim>\<open>start\<close> and \<^verbatim>\<open>end\<close> entries.\<close>

definition drop_start_end :: "error + body \<Rightarrow> error + body" where
  "drop_start_end r =
     (case r of Inl e \<Rightarrow> Inl e | Inr b \<Rightarrow> Inr (without_keys b {''start'', ''end''}))"

section \<open>Concrete inputs\<close>

text \<open>The parameters of \<^verbatim>\<open>test_create_event\<close> in \<^verbatim>\<open>test_events_component.py\<close>.\<close>

definition sample_event_parameters :: params where
  "sample_event_parameters =
     [''zoom_url'' \<mapsto> ''https://zoom.us/j/1234567890'',
      ''indico_event_id'' \<mapsto> ''1234567890'',
      ''subject'' \<mapsto> ''Test Event'',
      ''start_time'' \<mapsto> ''2021-01-01T00:00:00'',
      ''end_time'' \<mapsto> ''2021-01-01T01:00:00'']"

text \<open>The partial body that the sample parameters produce.\<close>

definition sample_partial_body :: body where
  "sample_partial_body =
     [''body'' \<mapsto> body_part ''https://zoom.us/j/1234567890'',
      ''location'' \<mapsto> location_part ''https://zoom.us/j/1234567890'',
      ''onlineMeetingUrl'' \<mapsto> JStr ''https://zoom.us/j/1234567890'',
      ''subject'' \<mapsto> JStr ''[1234567890] Test Event'',
      ''start'' \<mapsto> time_part ''2021-01-01T00:00:00'' ''Europe/Zurich'',
      ''end'' \<mapsto> time_part ''2021-01-01T01:00:00'' ''Europe/Zurich'']"

text \<open>Partial parameters whose \<^verbatim>\<open>start_time\<close> is present with the empty string as value.\<close>

definition empty_start_parameters :: params where
  "empty_start_parameters = [''indico_event_id'' \<mapsto> ''1234567890'', ''start_time'' \<mapsto> '''']"

text \<open>Partial parameters whose \<^verbatim>\<open>zoom_url\<close> is present with the empty string as value.\<close>

definition empty_url_parameters :: params where
  "empty_url_parameters =
     [''indico_event_id'' \<mapsto> ''1234567890'', ''zoom_url'' \<mapsto> '''',
      ''start_time'' \<mapsto> ''2021-01-01T00:00:00'']"

text \<open>The sample parameters with a \<^verbatim>\<open>start_time\<close> that is no date.\<close>

definition bad_date_parameters :: params where
  "bad_date_parameters = sample_event_parameters(''start_time'' \<mapsto> ''yesterday'')"

text \<open>The sample parameters with the letter \<^verbatim>\<open>X\<close> between the date and the time of
  \<^verbatim>\<open>start_time\<close>.\<close>

definition x_separator_parameters :: params where
  "x_separator_parameters =
     sample_event_parameters(''start_time'' \<mapsto> ''2021-01-01X00:00:00'')"

text \<open>The sample parameters with a time zone and a blank as date separator.\<close>

definition utc_event_parameters :: params where
  "utc_event_parameters =
     sample_event_parameters(''timezone'' \<mapsto> ''UTC'', ''start_time'' \<mapsto> ''2021-01-01 00:00:00'')"

text \<open>Partial parameters that hold only \<^verbatim>\<open>indico_event_id\<close> and \<^verbatim>\<open>timezone\<close>.\<close>

definition id_timezone_parameters :: params where
  "id_timezone_parameters = [''indico_event_id'' \<mapsto> ''1234567890'', ''timezone'' \<mapsto> ''UTC'']"

text \<open>
  The fixtures of \<^verbatim>\<open>test_cern_events_component.py\<close>: the headers every test passes, the
  mocked responses, and one provider for each set of mocked routes. An unmocked route
  answers with a transport error. The query of the zoom-id lookup and the place of the
  zoom id in the parameters are not visible in the tests; the samples below fix them for
  the evaluation.
\<close>

definition test_headers :: params where
  "test_headers = [''test'' \<mapsto> ''test'']"

definition sample_zoom_query :: "string \<Rightarrow> params" where
  "sample_zoom_query zoom_id = [''$count'' \<mapsto> ''true'', ''zoom_id'' \<mapsto> zoom_id]"


text \<open>The dictionary that \<^verbatim>\<open>test_update_event\<close> passes to \<^verbatim>\<open>update_event_by_zoom_id\<close>: it
  carries a \<^verbatim>\<open>zoom_id\<close> and no \<^verbatim>\<open>indico_event_id\<close>.\<close>

definition test_update_parameters :: params where
  "test_update_parameters =
     [''zoom_url'' \<mapsto> ''https://zoom.us/j/1234567890'', ''zoom_id'' \<mapsto> ''1234567890'',
      ''subject'' \<mapsto> ''Test Event'', ''start_time'' \<mapsto> ''2021-01-01T00:00:00'',
      ''end_time'' \<mapsto> ''2021-01-01T01:00:00'']"

text \<open>That dictionary completed with the \<^verbatim>\<open>indico_event_id\<close> that \<^verbatim>\<open>PartialEventParameters\<close>
  requires and the test leaves out (the value is the one of \<^verbatim>\<open>test_events_component.py\<close>):
  the sample parameters with the \<^verbatim>\<open>zoom_id\<close> added.\<close>

definition update_parameters :: params where
  "update_parameters = sample_event_parameters(''zoom_id'' \<mapsto> ''1234567890'')"


definition no_event_response :: json where
  "no_event_response = JObj [''@odata.count'' \<mapsto> JInt 0]"

definition two_events_response :: json where
  "two_events_response =
     JObj [''@odata.count'' \<mapsto> JInt 2,
           ''value'' \<mapsto> JList [JObj [''subject'' \<mapsto> JStr ''zoom_id_1''],
                                JObj [''subject'' \<mapsto> JStr ''zoom_id_2'']]]"

definition one_event_response :: json where
  "one_event_response =
     JObj [''@odata.count'' \<mapsto> JInt 1,
           ''value'' \<mapsto> JList [JObj [''id'' \<mapsto> JStr ''event_id'',
                                      ''subject'' \<mapsto> JStr ''Test Event'']]]"

definition stored_event :: json where
  "stored_event =
     JObj [''id'' \<mapsto> JStr ''event_id'',
           ''subject'' \<mapsto> JStr ''Test Event'',
           ''singleValueExtendedProperties'' \<mapsto>
             JList [JObj [''id'' \<mapsto>
                            JStr ''String {66f5a359-4659-4830-9070-00040ec6ac6e} Name ZoomId'',
                          ''value'' \<mapsto> JStr ''1234567890'']]]"

definition ok_response :: json where
  "ok_response = JObj [''response'' \<mapsto> JStr ''ok'']"

definition provider_no_event :: "unit provider" where
  "provider_no_event s r =
     (if req_method r = GET \<and> req_path r = ''/users/user_id/calendar/events''
      then (Inr no_event_response, s) else (Inl (TransportError 404), s))"

definition provider_two_events :: "unit provider" where
  "provider_two_events s r =
     (if req_method r = GET \<and> req_path r = ''/users/user_id/calendar/events''
      then (Inr two_events_response, s) else (Inl (TransportError 404), s))"

definition provider_one_event :: "unit provider" where
  "provider_one_event s r =
     (if req_method r = GET \<and> req_path r = ''/users/user_id/calendar/events''
      then (Inr one_event_response, s)
      else if req_method r = GET \<and> req_path r = ''/users/user_id/calendar/events/event_id''
      then (Inr stored_event, s)
      else if req_method r = PATCH \<and> req_path r = ''/users/user_id/calendar/events/event_id''
      then (Inr ok_response, s)
      else if req_method r = DELETE \<and> req_path r = ''/users/user_id/calendar/events/event_id''
      then (Inr JNull, s)
      else (Inl (TransportError 404), s))"

section \<open>The steps of the partial codec in closed form\<close>

lemma update_zoom_url_eq:
  "update_zoom_url p ev =
     Inr (case p ''zoom_url'' of None \<Rightarrow> ev
          | Some url \<Rightarrow> ev(''body'' \<mapsto> body_part url, ''location'' \<mapsto> location_part url,
                          ''onlineMeetingUrl'' \<mapsto> JStr url))"
  by (simp add: update_zoom_url_def bind_def getitem_def domIff split: option.splits)

lemma update_subject_eq:
  "update_subject p ev =
     (case p ''subject'' of None \<Rightarrow> Inr ev
      | Some subj \<Rightarrow>
          (case p ''indico_event_id'' of None \<Rightarrow> Inl (KeyError ''indico_event_id'')
           | Some eid \<Rightarrow> Inr (ev(''subject'' \<mapsto> subject_part eid subj))))"
  by (simp add: update_subject_def bind_def getitem_def domIff split: option.splits)

lemma update_start_time_eq:
  "update_start_time F I tz p ev =
     (case p ''start_time'' of None \<Rightarrow> Inr ev
      | Some st \<Rightarrow>
          (case F st of None \<Rightarrow> Inl (ValueError st)
           | Some sd \<Rightarrow> Inr (ev(''start'' \<mapsto> time_part (I sd) tz))))"
  by (simp add: update_start_time_def bind_def getitem_def parse_date_def domIff
      split: option.splits)

lemma update_end_time_eq:
  "update_end_time F I tz p ev =
     (case p ''end_time'' of None \<Rightarrow> Inr ev
      | Some et \<Rightarrow>
          (case F et of None \<Rightarrow> Inl (ValueError et)
           | Some ed \<Rightarrow> Inr (ev(''end'' \<mapsto> time_part (I ed) tz))))"
  by (simp add: update_end_time_def bind_def getitem_def parse_date_def domIff
      split: option.splits)

section \<open>Both codecs on parameters with every field present\<close>

lemma create_event_body_eq:
  assumes "p ''indico_event_id'' = Some eid" "p ''subject'' = Some subj"
    "p ''zoom_url'' = Some url" "p ''start_time'' = Some st" "p ''end_time'' = Some et"
  shows "create_event_body F I p =
    (case F st of None \<Rightarrow> Inl (ValueError st)
     | Some sd \<Rightarrow>
        (case F et of None \<Rightarrow> Inl (ValueError et)
         | Some ed \<Rightarrow>
            Inr [''subject'' \<mapsto> subject_part eid subj,
                 ''body'' \<mapsto> body_part url,
                 ''start'' \<mapsto> time_part (I sd) (get_default p ''timezone'' ''Europe/Zurich''),
                 ''end'' \<mapsto> time_part (I ed) (get_default p ''timezone'' ''Europe/Zurich''),
                 ''location'' \<mapsto> location_part url,
                 ''attendees'' \<mapsto> JList [],
                 ''allowNewTimeProposals'' \<mapsto> JBool False,
                 ''isOnlineMeeting'' \<mapsto> JBool True,
                 ''onlineMeetingProvider'' \<mapsto> JStr ''unknown'',
                 ''onlineMeetingUrl'' \<mapsto> JStr url]))"
  using assms
  by (simp add: create_event_body_def bind_def getitem_def parse_date_def Let_def
      split: option.splits)

lemma create_partial_event_body_eq:
  assumes "p ''indico_event_id'' = Some eid" "p ''subject'' = Some subj"
    "p ''zoom_url'' = Some url" "p ''start_time'' = Some st" "p ''end_time'' = Some et"
  shows "create_partial_event_body F I p =
    (case F st of None \<Rightarrow> Inl (ValueError st)
     | Some sd \<Rightarrow>
        (case F et of None \<Rightarrow> Inl (ValueError et)
         | Some ed \<Rightarrow>
            Inr [''body'' \<mapsto> body_part url,
                 ''location'' \<mapsto> location_part url,
                 ''onlineMeetingUrl'' \<mapsto> JStr url,
                 ''subject'' \<mapsto> subject_part eid subj,
                 ''start'' \<mapsto> time_part (I sd) (get_default p ''timezone'' ''Europe/Zurich''),
                 ''end'' \<mapsto> time_part (I ed) (get_default p ''timezone'' ''Europe/Zurich'')]))"
  using assms
  by (simp add: create_partial_event_body_def update_zoom_url_eq update_subject_eq
      update_start_time_eq update_end_time_eq bind_def Let_def split: option.splits)

lemma without_fixed_fields:
  "without_keys
      [''subject'' \<mapsto> a, ''body'' \<mapsto> b, ''start'' \<mapsto> c, ''end'' \<mapsto> d, ''location'' \<mapsto> e,
       ''attendees'' \<mapsto> f, ''allowNewTimeProposals'' \<mapsto> g, ''isOnlineMeeting'' \<mapsto> h,
       ''onlineMeetingProvider'' \<mapsto> i, ''onlineMeetingUrl'' \<mapsto> j] fixed_constant_fields =
   [''body'' \<mapsto> b, ''location'' \<mapsto> e, ''onlineMeetingUrl'' \<mapsto> j, ''subject'' \<mapsto> a,
    ''start'' \<mapsto> c, ''end'' \<mapsto> d]"
  by (rule ext) (simp add: without_keys_def fixed_constant_fields_def)

lemma EventParametersE:
  assumes "is_EventParameters p"
  obtains eid subj url st et where
    "p ''indico_event_id'' = Some eid" "p ''subject'' = Some subj" "p ''zoom_url'' = Some url"
    "p ''start_time'' = Some st" "p ''end_time'' = Some et"
  using assms by (auto simp: is_EventParameters_def)

section \<open>The sample parameters under the concrete parser\<close>

lemmas basic_parser_defs = fromisoformat_basic_def parse_digits_def digit_val_def
  days_in_month_def is_leap_def

lemmas basic_printer_defs = isoformat_basic_def pad2_def pad4_def digit_char_def

lemma fromisoformat_basic_midnight:
  "fromisoformat_basic ''2021-01-01T00:00:00'' =
     Some \<lparr>year = 2021, month = 1, day = 1, hour = 0, minute = 0, second = 0\<rparr>"
  by (simp add: basic_parser_defs)

lemma fromisoformat_basic_one:
  "fromisoformat_basic ''2021-01-01T01:00:00'' =
     Some \<lparr>year = 2021, month = 1, day = 1, hour = 1, minute = 0, second = 0\<rparr>"
  by (simp add: basic_parser_defs)

lemma fromisoformat_basic_empty: "fromisoformat_basic [] = None"
  by (simp add: fromisoformat_basic_def)

lemma sample_is_EventParameters: "is_EventParameters sample_event_parameters"
  by (simp add: is_EventParameters_def sample_event_parameters_def)

lemma sample_fields:
  "sample_event_parameters ''indico_event_id'' = Some ''1234567890''"
  "sample_event_parameters ''subject'' = Some ''Test Event''"
  "sample_event_parameters ''zoom_url'' = Some ''https://zoom.us/j/1234567890''"
  "sample_event_parameters ''start_time'' = Some ''2021-01-01T00:00:00''"
  "sample_event_parameters ''end_time'' = Some ''2021-01-01T01:00:00''"
  by (simp_all add: sample_event_parameters_def)

lemma sample_timezone: "sample_event_parameters ''timezone'' = None"
  by (simp add: sample_event_parameters_def)

lemma sample_create_event_body:
  "create_event_body fromisoformat_basic isoformat_basic sample_event_parameters =
     Inr [''subject'' \<mapsto> JStr ''[1234567890] Test Event'',
          ''body'' \<mapsto> body_part ''https://zoom.us/j/1234567890'',
          ''start'' \<mapsto> time_part ''2021-01-01T00:00:00'' ''Europe/Zurich'',
          ''end'' \<mapsto> time_part ''2021-01-01T01:00:00'' ''Europe/Zurich'',
          ''location'' \<mapsto> location_part ''https://zoom.us/j/1234567890'',
          ''attendees'' \<mapsto> JList [],
          ''allowNewTimeProposals'' \<mapsto> JBool False,
          ''isOnlineMeeting'' \<mapsto> JBool True,
          ''onlineMeetingProvider'' \<mapsto> JStr ''unknown'',
          ''onlineMeetingUrl'' \<mapsto> JStr ''https://zoom.us/j/1234567890'']"
  unfolding create_event_body_eq[OF sample_fields]
  by (simp add: fromisoformat_basic_midnight fromisoformat_basic_one basic_printer_defs
      get_default_def sample_timezone subject_part_def)

lemma sample_returns_body:
  "returns_body (create_event_body fromisoformat_basic isoformat_basic sample_event_parameters)"
  by (simp add: sample_create_event_body returns_body_def)

section \<open>Keys, values and failures of the partial codec\<close>

lemma dom_update_zoom_url:
  assumes "update_zoom_url p ev = Inr ev'"
  shows "dom ev' = dom ev \<union>
    (if ''zoom_url'' \<in> dom p then {''body'', ''location'', ''onlineMeetingUrl''} else {})"
  using assms by (auto simp: update_zoom_url_eq split: option.splits)

lemma dom_update_subject:
  assumes "update_subject p ev = Inr ev'"
  shows "dom ev' = dom ev \<union> (if ''subject'' \<in> dom p then {''subject''} else {})"
  using assms by (auto simp: update_subject_eq split: option.splits)

lemma dom_update_start_time:
  assumes "update_start_time F I tz p ev = Inr ev'"
  shows "dom ev' = dom ev \<union> (if ''start_time'' \<in> dom p then {''start''} else {})"
  using assms by (auto simp: update_start_time_eq split: option.splits)

lemma dom_update_end_time:
  assumes "update_end_time F I tz p ev = Inr ev'"
  shows "dom ev' = dom ev \<union> (if ''end_time'' \<in> dom p then {''end''} else {})"
  using assms by (auto simp: update_end_time_eq split: option.splits)

lemma partial_steps:
  assumes "create_partial_event_body F I p = Inr b"
  obtains ev1 ev2 ev3 where
    "update_zoom_url p Map.empty = Inr ev1"
    "update_subject p ev1 = Inr ev2"
    "update_start_time F I (get_default p ''timezone'' ''Europe/Zurich'') p ev2 = Inr ev3"
    "update_end_time F I (get_default p ''timezone'' ''Europe/Zurich'') p ev3 = Inr b"
  using assms
  by (auto simp: create_partial_event_body_def bind_def Let_def split: sum.splits)

lemma dom_create_partial_event_body:
  assumes "create_partial_event_body F I p = Inr b"
  shows "dom b = spec_partial_keys p"
proof -
  from assms obtain ev1 ev2 ev3 where
    s: "update_zoom_url p Map.empty = Inr ev1"
    "update_subject p ev1 = Inr ev2"
    "update_start_time F I (get_default p ''timezone'' ''Europe/Zurich'') p ev2 = Inr ev3"
    "update_end_time F I (get_default p ''timezone'' ''Europe/Zurich'') p ev3 = Inr b"
    by (rule partial_steps)
  show ?thesis
    unfolding spec_partial_keys_def dom_update_end_time[OF s(4)] dom_update_start_time[OF s(3)]
      dom_update_subject[OF s(2)] dom_update_zoom_url[OF s(1)]
    by (simp only: dom_empty Un_empty_left)
qed

lemma spec_partial_keys_subset: "spec_partial_keys p \<subseteq> partial_fields"
  by (auto simp: spec_partial_keys_def partial_fields_def split: if_splits)

lemma spec_partial_keys_not_fixed: "spec_partial_keys p \<inter> fixed_constant_fields = {}"
  by (auto simp: spec_partial_keys_def fixed_constant_fields_def split: if_splits)

lemma update_subject_returns:
  assumes "is_PartialEventParameters p"
  shows "\<exists>ev'. update_subject p ev = Inr ev'"
  using assms
  by (auto simp: update_subject_eq is_PartialEventParameters_def split: option.splits)

lemma update_start_time_returns:
  assumes "date_ok F p ''start_time''"
  shows "\<exists>ev'. update_start_time F I tz p ev = Inr ev'"
  using assms by (auto simp: update_start_time_eq date_ok_def split: option.splits)

lemma update_end_time_returns:
  assumes "date_ok F p ''end_time''"
  shows "\<exists>ev'. update_end_time F I tz p ev = Inr ev'"
  using assms by (auto simp: update_end_time_eq date_ok_def split: option.splits)

lemma update_start_time_raises:
  assumes "\<not> date_ok F p ''start_time''"
  shows "\<exists>s. update_start_time F I tz p ev = Inl (ValueError s)"
  using assms by (auto simp: update_start_time_eq date_ok_def split: option.splits)

lemma update_end_time_raises:
  assumes "\<not> date_ok F p ''end_time''"
  shows "\<exists>s. update_end_time F I tz p ev = Inl (ValueError s)"
  using assms by (auto simp: update_end_time_eq date_ok_def split: option.splits)

lemma create_partial_event_body_cases:
  assumes "is_PartialEventParameters p"
  shows "if date_ok F p ''start_time'' \<and> date_ok F p ''end_time''
         then \<exists>b. create_partial_event_body F I p = Inr b
         else \<exists>s. create_partial_event_body F I p = Inl (ValueError s)"
proof -
  let ?tz = "get_default p ''timezone'' ''Europe/Zurich''"
  obtain ev1 where s1: "update_zoom_url p Map.empty = Inr ev1"
    by (simp add: update_zoom_url_eq)
  obtain ev2 where s2: "update_subject p ev1 = Inr ev2"
    using update_subject_returns[OF assms] by blast
  have unfold: "create_partial_event_body F I p =
      bind (update_start_time F I ?tz p ev2) (update_end_time F I ?tz p)"
    by (simp add: create_partial_event_body_def Let_def bind_def s1 s2)
  show ?thesis
  proof (cases "date_ok F p ''start_time''")
    case False
    then obtain s where "update_start_time F I ?tz p ev2 = Inl (ValueError s)"
      using update_start_time_raises by blast
    with False show ?thesis by (simp add: unfold bind_def)
  next
    case True
    then obtain ev3 where s3: "update_start_time F I ?tz p ev2 = Inr ev3"
      using update_start_time_returns by blast
    show ?thesis
    proof (cases "date_ok F p ''end_time''")
      case False
      then obtain s where "update_end_time F I ?tz p ev3 = Inl (ValueError s)"
        using update_end_time_raises by blast
      with False show ?thesis by (simp add: unfold bind_def s3)
    next
      case ok: True
      then obtain b where "update_end_time F I ?tz p ev3 = Inr b"
        using update_end_time_returns by blast
      with True ok show ?thesis by (simp add: unfold bind_def s3)
    qed
  qed
qed

lemma create_event_body_cases:
  assumes "is_EventParameters p"
  shows "if date_ok F p ''start_time'' \<and> date_ok F p ''end_time''
         then \<exists>b. create_event_body F I p = Inr b
         else \<exists>s. create_event_body F I p = Inl (ValueError s)"
proof -
  from assms obtain eid subj url st et where
    k: "p ''indico_event_id'' = Some eid" "p ''subject'' = Some subj" "p ''zoom_url'' = Some url"
    "p ''start_time'' = Some st" "p ''end_time'' = Some et"
    by (rule EventParametersE)
  show ?thesis
    unfolding create_event_body_eq[of p eid subj url st et, OF k]
    by (auto simp: date_ok_def k split: option.splits)
qed

lemma update_subject_value:
  assumes "p ''indico_event_id'' = Some eid" "p ''subject'' = Some subj"
    "update_subject p ev = Inr ev'"
  shows "ev' ''subject'' = Some (subject_part eid subj)"
  using assms by (auto simp: update_subject_eq)

lemma update_start_time_other:
  assumes "update_start_time F I tz p ev = Inr ev'" "k \<noteq> ''start''"
  shows "ev' k = ev k"
  using assms by (auto simp: update_start_time_eq split: option.splits)

lemma update_end_time_other:
  assumes "update_end_time F I tz p ev = Inr ev'" "k \<noteq> ''end''"
  shows "ev' k = ev k"
  using assms by (auto simp: update_end_time_eq split: option.splits)

lemma partial_subject_value:
  assumes "p ''indico_event_id'' = Some eid" "p ''subject'' = Some subj"
    "create_partial_event_body F I p = Inr b"
  shows "b ''subject'' = Some (subject_part eid subj)"
proof -
  from assms(3) obtain ev1 ev2 ev3 where
    s: "update_zoom_url p Map.empty = Inr ev1"
    "update_subject p ev1 = Inr ev2"
    "update_start_time F I (get_default p ''timezone'' ''Europe/Zurich'') p ev2 = Inr ev3"
    "update_end_time F I (get_default p ''timezone'' ''Europe/Zurich'') p ev3 = Inr b"
    by (rule partial_steps)
  have "b ''subject'' = ev3 ''subject''"
    by (rule update_end_time_other[OF s(4)]) simp
  also have "\<dots> = ev2 ''subject''"
    by (rule update_start_time_other[OF s(3)]) simp
  also have "\<dots> = Some (subject_part eid subj)"
    by (rule update_subject_value[OF assms(1,2) s(2)])
  finally show ?thesis .
qed

lemma time_steps_timezone:
  "drop_start_end (bind (update_start_time F I tz p ev) (update_end_time F I tz p)) =
   drop_start_end (bind (update_start_time F I tz' p ev) (update_end_time F I tz' p))"
  by (auto simp: update_start_time_eq update_end_time_eq bind_def drop_start_end_def
      without_keys_def split: option.splits intro!: ext)

lemma time_steps_absent:
  assumes "''start_time'' \<notin> dom p" "''end_time'' \<notin> dom p"
  shows "bind (update_start_time F I tz p ev) (update_end_time F I tz p) = Inr ev"
  using assms by (simp add: update_start_time_eq update_end_time_eq bind_def domIff)

lemma steps_ignore_timezone:
  "update_zoom_url (p(''timezone'' := z)) ev = update_zoom_url p ev"
  "update_subject (p(''timezone'' := z)) ev = update_subject p ev"
  "update_start_time F I tz (p(''timezone'' := z)) ev = update_start_time F I tz p ev"
  "update_end_time F I tz (p(''timezone'' := z)) ev = update_end_time F I tz p ev"
  by (simp_all add: update_zoom_url_eq update_subject_eq update_start_time_eq
      update_end_time_eq cong: option.case_cong)

lemma partial_as_time_steps:
  "create_partial_event_body F I p =
     bind (update_zoom_url p Map.empty) (\<lambda>ev1. bind (update_subject p ev1) (\<lambda>ev2.
       bind (update_start_time F I (get_default p ''timezone'' ''Europe/Zurich'') p ev2)
         (update_end_time F I (get_default p ''timezone'' ''Europe/Zurich'') p)))"
  by (simp add: create_partial_event_body_def Let_def bind_def)

lemma partial_timezone_only_start_end:
  "drop_start_end (create_partial_event_body F I (p(''timezone'' := z))) =
   drop_start_end (create_partial_event_body F I p)"
proof -
  obtain ev1 where s1: "update_zoom_url p Map.empty = Inr ev1"
    by (simp add: update_zoom_url_eq)
  show ?thesis
  proof (cases "update_subject p ev1")
    case (Inl e)
    then show ?thesis
      unfolding partial_as_time_steps steps_ignore_timezone
      by (simp add: s1 bind_def)
  next
    case (Inr ev2)
    have l: "create_partial_event_body F I (p(''timezone'' := z)) =
        bind (update_start_time F I
                (get_default (p(''timezone'' := z)) ''timezone'' ''Europe/Zurich'') p ev2)
          (update_end_time F I
                (get_default (p(''timezone'' := z)) ''timezone'' ''Europe/Zurich'') p)"
      unfolding partial_as_time_steps steps_ignore_timezone
      by (simp add: s1 Inr bind_def)
    have r: "create_partial_event_body F I p =
        bind (update_start_time F I (get_default p ''timezone'' ''Europe/Zurich'') p ev2)
          (update_end_time F I (get_default p ''timezone'' ''Europe/Zurich'') p)"
      by (simp add: partial_as_time_steps s1 Inr bind_def)
    show ?thesis
      unfolding l r by (rule time_steps_timezone)
  qed
qed

lemma partial_timezone_irrelevant:
  assumes "''start_time'' \<notin> dom p" "''end_time'' \<notin> dom p"
  shows "create_partial_event_body F I (p(''timezone'' := z)) = create_partial_event_body F I p"
proof -
  obtain ev1 where s1: "update_zoom_url p Map.empty = Inr ev1"
    by (simp add: update_zoom_url_eq)
  show ?thesis
  proof (cases "update_subject p ev1")
    case (Inl e)
    then show ?thesis
      unfolding partial_as_time_steps steps_ignore_timezone
      by (simp add: s1 bind_def)
  next
    case (Inr ev2)
    have "create_partial_event_body F I (p(''timezone'' := z)) = Inr ev2"
      unfolding partial_as_time_steps steps_ignore_timezone time_steps_absent[OF assms]
      by (simp add: s1 Inr bind_def)
    moreover have "create_partial_event_body F I p = Inr ev2"
      unfolding partial_as_time_steps time_steps_absent[OF assms]
      by (simp add: s1 Inr bind_def)
    ultimately show ?thesis by simp
  qed
qed

lemma partial_nothing_present:
  assumes "''zoom_url'' \<notin> dom p" "''subject'' \<notin> dom p"
    "''start_time'' \<notin> dom p" "''end_time'' \<notin> dom p"
  shows "create_partial_event_body F I p = Inr Map.empty"
  using assms
  by (simp add: create_partial_event_body_def update_zoom_url_def update_subject_def
      update_start_time_def update_end_time_def bind_def)

lemma fromisoformat_basic_space:
  "fromisoformat_basic ''2021-01-01 00:00:00'' =
     Some \<lparr>year = 2021, month = 1, day = 1, hour = 0, minute = 0, second = 0\<rparr>"
  by (simp add: basic_parser_defs)

lemma fromisoformat_basic_yesterday: "fromisoformat_basic ''yesterday'' = None"
  by (simp add: fromisoformat_basic_def)

lemma isoformat_basic_midnight:
  "isoformat_basic \<lparr>year = 2021, month = 1, day = 1, hour = 0, minute = 0, second = 0\<rparr> =
     ''2021-01-01T00:00:00''"
  by (simp add: basic_printer_defs)

lemma isoformat_basic_one:
  "isoformat_basic \<lparr>year = 2021, month = 1, day = 1, hour = 1, minute = 0, second = 0\<rparr> =
     ''2021-01-01T01:00:00''"
  by (simp add: basic_printer_defs)

lemma sample_dates_ok:
  "date_ok fromisoformat_basic sample_event_parameters ''start_time''"
  "date_ok fromisoformat_basic sample_event_parameters ''end_time''"
  by (simp_all add: date_ok_def sample_fields fromisoformat_basic_midnight
      fromisoformat_basic_one)

lemma sample_is_PartialEventParameters: "is_PartialEventParameters sample_event_parameters"
  by (simp add: is_PartialEventParameters_def sample_event_parameters_def)

lemma sample_create_partial_event_body:
  "create_partial_event_body fromisoformat_basic isoformat_basic sample_event_parameters =
     Inr sample_partial_body"
  unfolding create_partial_event_body_eq[OF sample_fields]
  by (simp add: fromisoformat_basic_midnight fromisoformat_basic_one basic_printer_defs
      get_default_def sample_timezone subject_part_def sample_partial_body_def)

lemma bad_date_is_EventParameters: "is_EventParameters bad_date_parameters"
  by (simp add: is_EventParameters_def bad_date_parameters_def sample_event_parameters_def)

lemma bad_date_not_ok: "\<not> date_ok fromisoformat_basic bad_date_parameters ''start_time''"
  by (simp add: date_ok_def bad_date_parameters_def fromisoformat_basic_yesterday)

lemma fromisoformat_basic_x_separator:
  "fromisoformat_basic ''2021-01-01X00:00:00'' =
     Some \<lparr>year = 2021, month = 1, day = 1, hour = 0, minute = 0, second = 0\<rparr>"
  by (simp add: basic_parser_defs)

lemma x_separator_not_in_alphabet: "\<not> in_iso8601_alphabet ''2021-01-01X00:00:00''"
  by (simp add: in_iso8601_alphabet_def iso8601_alphabet_def)

lemma x_separator_facts:
  "is_EventParameters x_separator_parameters"
  "is_PartialEventParameters x_separator_parameters"
  "x_separator_parameters ''start_time'' = Some ''2021-01-01X00:00:00''"
  "date_ok fromisoformat_basic x_separator_parameters ''start_time''"
  "date_ok fromisoformat_basic x_separator_parameters ''end_time''"
  by (simp_all add: is_EventParameters_def is_PartialEventParameters_def
      x_separator_parameters_def sample_event_parameters_def date_ok_def
      fromisoformat_basic_x_separator fromisoformat_basic_one)

lemma utc_fields:
  "utc_event_parameters ''start_time'' = Some ''2021-01-01 00:00:00''"
  "utc_event_parameters ''end_time'' = Some ''2021-01-01T01:00:00''"
  "utc_event_parameters ''timezone'' = Some ''UTC''"
  by (simp_all add: utc_event_parameters_def sample_event_parameters_def)

lemma utc_is_EventParameters: "is_EventParameters utc_event_parameters"
  by (simp add: is_EventParameters_def utc_event_parameters_def sample_event_parameters_def)

lemma empty_start_fields:
  "is_PartialEventParameters empty_start_parameters"
  "empty_start_parameters ''start_time'' = Some []"
  by (simp_all add: is_PartialEventParameters_def empty_start_parameters_def)

lemma empty_url_facts:
  "is_PartialEventParameters empty_url_parameters"
  "empty_url_parameters ''zoom_url'' = Some []"
  "date_ok fromisoformat_basic empty_url_parameters ''start_time''"
  "date_ok fromisoformat_basic empty_url_parameters ''end_time''"
  "spec_partial_keys empty_url_parameters = {''body'', ''location'', ''onlineMeetingUrl'', ''start''}"
  by (auto simp: is_PartialEventParameters_def empty_url_parameters_def date_ok_def
      fromisoformat_basic_midnight spec_partial_keys_def)

section \<open>The claims about the codec\<close>

text \<open>
  C2. For every \<^verbatim>\<open>EventParameters\<close> value with all fields present,
  \<^verbatim>\<open>create_partial_event_body(params)\<close> equals \<^verbatim>\<open>create_event_body(params)\<close> with the four
  fixed constant keys \<^verbatim>\<open>attendees\<close>, \<^verbatim>\<open>allowNewTimeProposals\<close>, \<^verbatim>\<open>isOnlineMeeting\<close> and
  \<^verbatim>\<open>onlineMeetingProvider\<close> removed; when a date does not parse, both raise the same error.
\<close>

theorem partial_body_is_full_body_minus_fixed:
  assumes "is_EventParameters p"
  shows "create_partial_event_body F I p = minus_fixed (create_event_body F I p)"
proof -
  from assms obtain eid subj url st et where
    k: "p ''indico_event_id'' = Some eid" "p ''subject'' = Some subj" "p ''zoom_url'' = Some url"
    "p ''start_time'' = Some st" "p ''end_time'' = Some et"
    by (rule EventParametersE)
  show ?thesis
    unfolding create_event_body_eq[of p eid subj url st et, OF k]
      create_partial_event_body_eq[of p eid subj url st et, OF k]
    by (simp add: minus_fixed_def without_fixed_fields split: option.splits)
qed

theorem partial_body_is_full_body_minus_fixed_witness:
  "is_EventParameters sample_event_parameters \<and>
   returns_body (create_event_body fromisoformat_basic isoformat_basic sample_event_parameters) \<and>
   create_partial_event_body fromisoformat_basic isoformat_basic sample_event_parameters =
     minus_fixed (create_event_body fromisoformat_basic isoformat_basic sample_event_parameters)"
  using partial_body_is_full_body_minus_fixed[OF sample_is_EventParameters,
      where F = fromisoformat_basic and I = isoformat_basic]
    sample_is_EventParameters sample_returns_body
  by simp

text \<open>
  C3, for parameters whose present dates parse. For every \<^verbatim>\<open>PartialEventParameters\<close>
  whose present \<^verbatim>\<open>start_time\<close> and
  \<^verbatim>\<open>end_time\<close> are accepted by the date parser, \<^verbatim>\<open>create_partial_event_body\<close> returns a
  body whose key set is exactly: \<^verbatim>\<open>body\<close>, \<^verbatim>\<open>location\<close> and \<^verbatim>\<open>onlineMeetingUrl\<close> when
  \<^verbatim>\<open>zoom_url\<close> is present, \<^verbatim>\<open>subject\<close> when \<^verbatim>\<open>subject\<close> is present, \<^verbatim>\<open>start\<close> when
  \<^verbatim>\<open>start_time\<close> is present, \<^verbatim>\<open>end\<close> when \<^verbatim>\<open>end_time\<close> is present, and no other key.
  Presence is key membership, whatever the value, so an empty \<^verbatim>\<open>zoom_url\<close> or \<^verbatim>\<open>subject\<close>
  still produces its keys. When a present date is rejected by the parser no body is
  returned at all.
\<close>

theorem partial_body_keys:
  assumes "is_PartialEventParameters p"
  shows "(date_ok F p ''start_time'' \<and> date_ok F p ''end_time'' \<longrightarrow>
           (\<exists>b. create_partial_event_body F I p = Inr b \<and> dom b = spec_partial_keys p)) \<and>
         (\<not> (date_ok F p ''start_time'' \<and> date_ok F p ''end_time'') \<longrightarrow>
           \<not> returns_body (create_partial_event_body F I p))"
  using create_partial_event_body_cases[OF assms, of F I] dom_create_partial_event_body[of F I p]
  by (auto simp: returns_body_def split: if_splits)

theorem partial_body_keys_witness:
  "is_PartialEventParameters empty_url_parameters \<and>
   empty_url_parameters ''zoom_url'' = Some [] \<and>
   (\<exists>b. create_partial_event_body fromisoformat_basic isoformat_basic empty_url_parameters =
           Inr b \<and>
        dom b = {''body'', ''location'', ''onlineMeetingUrl'', ''start''})"
  using partial_body_keys[OF empty_url_facts(1), of fromisoformat_basic isoformat_basic] empty_url_facts
  by simp

text \<open>
  The claim as stated fails for the date fields: a \<^verbatim>\<open>start_time\<close> that is present with the
  empty string as its value produces no \<^verbatim>\<open>start\<close> key, the call raises the date-parsing error.
\<close>

theorem empty_start_time_raises:
  "is_PartialEventParameters empty_start_parameters \<and>
   empty_start_parameters ''start_time'' = Some [] \<and>
   create_partial_event_body fromisoformat_basic isoformat_basic empty_start_parameters =
     Inl (ValueError [])"
  by (simp add: empty_start_fields create_partial_event_body_def update_zoom_url_eq
      update_subject_eq update_start_time_eq bind_def fromisoformat_basic_empty)
    (simp add: empty_start_parameters_def)

text \<open>
  C4, with acceptance by the date parser in place of validity as ISO-8601. On
  \<^verbatim>\<open>EventParameters\<close>, \<^verbatim>\<open>create_event_body\<close> raises the date-parsing error exactly when
  \<^verbatim>\<open>start_time\<close> or \<^verbatim>\<open>end_time\<close> is rejected by \<^verbatim>\<open>datetime.fromisoformat\<close>, and returns a body
  exactly when both are accepted. On \<^verbatim>\<open>PartialEventParameters\<close> the same holds for
  \<^verbatim>\<open>create_partial_event_body\<close> and the date fields that are present. The result is either
  an error or a body, so an error leaves no partial body behind.
\<close>

theorem date_error_iff_unparsable:
  "(is_EventParameters p \<longrightarrow>
     (raises_date_error (create_event_body F I p) \<longleftrightarrow>
        \<not> (date_ok F p ''start_time'' \<and> date_ok F p ''end_time'')) \<and>
     (returns_body (create_event_body F I p) \<longleftrightarrow>
        date_ok F p ''start_time'' \<and> date_ok F p ''end_time'')) \<and>
   (is_PartialEventParameters p \<longrightarrow>
     (raises_date_error (create_partial_event_body F I p) \<longleftrightarrow>
        \<not> (date_ok F p ''start_time'' \<and> date_ok F p ''end_time'')) \<and>
     (returns_body (create_partial_event_body F I p) \<longleftrightarrow>
        date_ok F p ''start_time'' \<and> date_ok F p ''end_time''))"
proof (intro conjI impI)
  assume e: "is_EventParameters p"
  show "raises_date_error (create_event_body F I p) \<longleftrightarrow>
        \<not> (date_ok F p ''start_time'' \<and> date_ok F p ''end_time'')"
    using create_event_body_cases[OF e, of F I]
    by (auto simp: raises_date_error_def split: if_splits)
  show "returns_body (create_event_body F I p) \<longleftrightarrow>
        date_ok F p ''start_time'' \<and> date_ok F p ''end_time''"
    using create_event_body_cases[OF e, of F I]
    by (auto simp: returns_body_def split: if_splits)
next
  assume e: "is_PartialEventParameters p"
  show "raises_date_error (create_partial_event_body F I p) \<longleftrightarrow>
        \<not> (date_ok F p ''start_time'' \<and> date_ok F p ''end_time'')"
    using create_partial_event_body_cases[OF e, of F I]
    by (auto simp: raises_date_error_def split: if_splits)
  show "returns_body (create_partial_event_body F I p) \<longleftrightarrow>
        date_ok F p ''start_time'' \<and> date_ok F p ''end_time''"
    using create_partial_event_body_cases[OF e, of F I]
    by (auto simp: returns_body_def split: if_splits)
qed

theorem date_error_iff_unparsable_witness:
  "is_EventParameters sample_event_parameters \<and>
   returns_body (create_event_body fromisoformat_basic isoformat_basic sample_event_parameters) \<and>
   returns_body
     (create_partial_event_body fromisoformat_basic isoformat_basic sample_event_parameters) \<and>
   is_EventParameters bad_date_parameters \<and>
   raises_date_error
     (create_event_body fromisoformat_basic isoformat_basic bad_date_parameters) \<and>
   raises_date_error
     (create_partial_event_body fromisoformat_basic isoformat_basic bad_date_parameters)"
  using date_error_iff_unparsable[of sample_event_parameters fromisoformat_basic isoformat_basic]
    date_error_iff_unparsable[of bad_date_parameters fromisoformat_basic isoformat_basic]
    sample_is_EventParameters sample_is_PartialEventParameters sample_dates_ok
    bad_date_is_EventParameters bad_date_not_ok
  by (simp add: is_PartialEventParameters_def is_EventParameters_def)

text \<open>
  The claim as stated, about validity as ISO-8601, fails: \<^verbatim>\<open>datetime.fromisoformat\<close> accepts any
  character between the date and the time. A \<^verbatim>\<open>start_time\<close> with the separator \<^verbatim>\<open>X\<close> is not
  valid ISO-8601, and yet both codecs return a body and raise no date-parsing error.
\<close>

theorem non_iso8601_date_is_accepted:
  "is_EventParameters x_separator_parameters \<and>
   x_separator_parameters ''start_time'' = Some ''2021-01-01X00:00:00'' \<and>
   \<not> in_iso8601_alphabet ''2021-01-01X00:00:00'' \<and>
   returns_body
     (create_event_body fromisoformat_basic isoformat_basic x_separator_parameters) \<and>
   \<not> raises_date_error
     (create_event_body fromisoformat_basic isoformat_basic x_separator_parameters) \<and>
   returns_body
     (create_partial_event_body fromisoformat_basic isoformat_basic x_separator_parameters) \<and>
   \<not> raises_date_error
     (create_partial_event_body fromisoformat_basic isoformat_basic x_separator_parameters)"
proof -
  obtain b where b: "create_event_body fromisoformat_basic isoformat_basic
      x_separator_parameters = Inr b"
    using create_event_body_cases[OF x_separator_facts(1), of fromisoformat_basic
        isoformat_basic] x_separator_facts(4,5) by auto
  obtain c where c: "create_partial_event_body fromisoformat_basic isoformat_basic
      x_separator_parameters = Inr c"
    using create_partial_event_body_cases[OF x_separator_facts(2), of fromisoformat_basic
        isoformat_basic] x_separator_facts(4,5) by auto
  show ?thesis
    by (simp add: b c returns_body_def raises_date_error_def x_separator_facts(1,3)
        x_separator_not_in_alphabet)
qed

text \<open>
  C5. For every \<^verbatim>\<open>EventParameters\<close> whose dates parse, \<^verbatim>\<open>create_event_body\<close> returns a
  body in which \<^verbatim>\<open>start.dateTime\<close> is the re-serialisation of the parsed \<^verbatim>\<open>start_time\<close>
  (likewise \<^verbatim>\<open>end.dateTime\<close>), and \<^verbatim>\<open>start.timeZone\<close> and \<^verbatim>\<open>end.timeZone\<close> are the
  \<^verbatim>\<open>timezone\<close> parameter when that key is present and \<^verbatim>\<open>Europe/Zurich\<close> when it is absent.
\<close>

theorem create_event_body_start_end:
  assumes "is_EventParameters p" "p ''start_time'' = Some st" "F st = Some sd"
    "p ''end_time'' = Some et" "F et = Some ed"
  shows "\<exists>b. create_event_body F I p = Inr b \<and>
    sub_field b ''start'' ''dateTime'' = Some (JStr (I sd)) \<and>
    sub_field b ''end'' ''dateTime'' = Some (JStr (I ed)) \<and>
    sub_field b ''start'' ''timeZone'' =
      Some (JStr (case p ''timezone'' of None \<Rightarrow> ''Europe/Zurich'' | Some tz \<Rightarrow> tz)) \<and>
    sub_field b ''end'' ''timeZone'' =
      Some (JStr (case p ''timezone'' of None \<Rightarrow> ''Europe/Zurich'' | Some tz \<Rightarrow> tz))"
proof -
  from assms(1) obtain eid subj url where
    k: "p ''indico_event_id'' = Some eid" "p ''subject'' = Some subj" "p ''zoom_url'' = Some url"
    by (auto elim: EventParametersE)
  show ?thesis
    unfolding create_event_body_eq[of p eid subj url st et, OF k assms(2,4)]
    by (simp add: assms(3,5) sub_field_def time_part_def get_default_def)
qed

theorem create_event_body_start_end_witness:
  "(\<exists>b. create_event_body fromisoformat_basic isoformat_basic utc_event_parameters = Inr b \<and>
      sub_field b ''start'' ''dateTime'' = Some (JStr ''2021-01-01T00:00:00'') \<and>
      sub_field b ''start'' ''timeZone'' = Some (JStr ''UTC'') \<and>
      sub_field b ''end'' ''timeZone'' = Some (JStr ''UTC'')) \<and>
   (\<exists>b. create_event_body fromisoformat_basic isoformat_basic sample_event_parameters = Inr b \<and>
      sub_field b ''start'' ''dateTime'' = Some (JStr ''2021-01-01T00:00:00'') \<and>
      sub_field b ''start'' ''timeZone'' = Some (JStr ''Europe/Zurich'') \<and>
      sub_field b ''end'' ''timeZone'' = Some (JStr ''Europe/Zurich''))"
proof (rule conjI)
  from create_event_body_start_end[OF utc_is_EventParameters utc_fields(1) fromisoformat_basic_space
      utc_fields(2) fromisoformat_basic_one, of isoformat_basic]
  obtain b where
    "create_event_body fromisoformat_basic isoformat_basic utc_event_parameters = Inr b"
    "sub_field b ''start'' ''dateTime'' = Some (JStr ''2021-01-01T00:00:00'')"
    "sub_field b ''start'' ''timeZone'' = Some (JStr ''UTC'')"
    "sub_field b ''end'' ''timeZone'' = Some (JStr ''UTC'')"
    unfolding isoformat_basic_midnight isoformat_basic_one utc_fields(3) option.case
    by blast
  then show "\<exists>b. create_event_body fromisoformat_basic isoformat_basic utc_event_parameters =
        Inr b \<and>
      sub_field b ''start'' ''dateTime'' = Some (JStr ''2021-01-01T00:00:00'') \<and>
      sub_field b ''start'' ''timeZone'' = Some (JStr ''UTC'') \<and>
      sub_field b ''end'' ''timeZone'' = Some (JStr ''UTC'')"
    by blast
next
  from create_event_body_start_end[OF sample_is_EventParameters sample_fields(4) fromisoformat_basic_midnight
      sample_fields(5) fromisoformat_basic_one, of isoformat_basic]
  obtain b where
    "create_event_body fromisoformat_basic isoformat_basic sample_event_parameters = Inr b"
    "sub_field b ''start'' ''dateTime'' = Some (JStr ''2021-01-01T00:00:00'')"
    "sub_field b ''start'' ''timeZone'' = Some (JStr ''Europe/Zurich'')"
    "sub_field b ''end'' ''timeZone'' = Some (JStr ''Europe/Zurich'')"
    unfolding isoformat_basic_midnight isoformat_basic_one sample_timezone option.case
    by blast
  then show "\<exists>b. create_event_body fromisoformat_basic isoformat_basic sample_event_parameters =
        Inr b \<and>
      sub_field b ''start'' ''dateTime'' = Some (JStr ''2021-01-01T00:00:00'') \<and>
      sub_field b ''start'' ''timeZone'' = Some (JStr ''Europe/Zurich'') \<and>
      sub_field b ''end'' ''timeZone'' = Some (JStr ''Europe/Zurich'')"
    by blast
qed

text \<open>
  C6. For every \<^verbatim>\<open>EventParameters\<close> whose dates parse, the body of \<^verbatim>\<open>create_event_body\<close>
  has the subject \<^verbatim>\<open>"[" + indico_event_id + "] " + subject\<close>, \<^verbatim>\<open>attendees\<close> the empty list,
  \<^verbatim>\<open>allowNewTimeProposals\<close> false, \<^verbatim>\<open>isOnlineMeeting\<close> true, \<^verbatim>\<open>onlineMeetingProvider\<close> the
  string \<^verbatim>\<open>unknown\<close> and \<^verbatim>\<open>onlineMeetingUrl\<close> the \<^verbatim>\<open>zoom_url\<close>. Whenever \<^verbatim>\<open>subject\<close> is
  present, \<^verbatim>\<open>create_partial_event_body\<close> formats the subject in the same way.
\<close>

theorem subject_and_fixed_fields:
  assumes "p ''indico_event_id'' = Some eid" "p ''subject'' = Some subj"
    "date_ok F p ''start_time''" "date_ok F p ''end_time''"
  shows "(is_EventParameters p \<longrightarrow>
           (\<exists>b. create_event_body F I p = Inr b \<and>
              b ''subject'' = Some (JStr (''['' @ eid @ ''] '' @ subj)) \<and>
              b ''attendees'' = Some (JList []) \<and>
              b ''allowNewTimeProposals'' = Some (JBool False) \<and>
              b ''isOnlineMeeting'' = Some (JBool True) \<and>
              b ''onlineMeetingProvider'' = Some (JStr ''unknown'') \<and>
              b ''onlineMeetingUrl'' = map_option JStr (p ''zoom_url''))) \<and>
         (\<exists>b. create_partial_event_body F I p = Inr b \<and>
              b ''subject'' = Some (JStr (''['' @ eid @ ''] '' @ subj)))"
proof (intro conjI impI)
  assume e: "is_EventParameters p"
  then obtain url st et where
    k: "p ''zoom_url'' = Some url" "p ''start_time'' = Some st" "p ''end_time'' = Some et"
    by (auto elim: EventParametersE)
  from assms(3,4) obtain sd ed where f: "F st = Some sd" "F et = Some ed"
    by (auto simp: date_ok_def k)
  show "\<exists>b. create_event_body F I p = Inr b \<and>
              b ''subject'' = Some (JStr (''['' @ eid @ ''] '' @ subj)) \<and>
              b ''attendees'' = Some (JList []) \<and>
              b ''allowNewTimeProposals'' = Some (JBool False) \<and>
              b ''isOnlineMeeting'' = Some (JBool True) \<and>
              b ''onlineMeetingProvider'' = Some (JStr ''unknown'') \<and>
              b ''onlineMeetingUrl'' = map_option JStr (p ''zoom_url'')"
    unfolding create_event_body_eq[of p eid subj url st et, OF assms(1,2) k]
    by (simp add: f k subject_part_def)
next
  have "is_PartialEventParameters p"
    using assms(1) by (simp add: is_PartialEventParameters_def domIff)
  then obtain b where b: "create_partial_event_body F I p = Inr b"
    using create_partial_event_body_cases[of p F I] assms(3,4) by auto
  have "b ''subject'' = Some (subject_part eid subj)"
    by (rule partial_subject_value[OF assms(1,2) b])
  with b show "\<exists>b. create_partial_event_body F I p = Inr b \<and>
              b ''subject'' = Some (JStr (''['' @ eid @ ''] '' @ subj))"
    by (simp add: subject_part_def)
qed

theorem subject_and_fixed_fields_witness:
  "(\<exists>b. create_event_body fromisoformat_basic isoformat_basic sample_event_parameters = Inr b \<and>
      b ''subject'' = Some (JStr ''[1234567890] Test Event'') \<and>
      b ''attendees'' = Some (JList []) \<and>
      b ''allowNewTimeProposals'' = Some (JBool False) \<and>
      b ''isOnlineMeeting'' = Some (JBool True) \<and>
      b ''onlineMeetingProvider'' = Some (JStr ''unknown'') \<and>
      b ''onlineMeetingUrl'' = Some (JStr ''https://zoom.us/j/1234567890'')) \<and>
   (\<exists>b. create_partial_event_body fromisoformat_basic isoformat_basic sample_event_parameters =
          Inr b \<and>
      b ''subject'' = Some (JStr ''[1234567890] Test Event''))"
  using subject_and_fixed_fields[OF sample_fields(1,2) sample_dates_ok, of isoformat_basic]
    sample_is_EventParameters
  by (simp add: sample_fields)

text \<open>
  C9. When none of \<^verbatim>\<open>zoom_url\<close>, \<^verbatim>\<open>subject\<close>, \<^verbatim>\<open>start_time\<close> and \<^verbatim>\<open>end_time\<close> is present,
  \<^verbatim>\<open>create_partial_event_body\<close> returns the empty mapping, whatever \<^verbatim>\<open>indico_event_id\<close> and
  \<^verbatim>\<open>timezone\<close> are. Setting, changing or removing \<^verbatim>\<open>timezone\<close> does not change the result
  when neither date field is present, and in general changes it at most under the
  keys \<^verbatim>\<open>start\<close> and \<^verbatim>\<open>end\<close>.
\<close>

theorem partial_body_without_fields:
  "(''zoom_url'' \<notin> dom p \<and> ''subject'' \<notin> dom p \<and> ''start_time'' \<notin> dom p \<and>
    ''end_time'' \<notin> dom p \<longrightarrow> create_partial_event_body F I p = Inr Map.empty) \<and>
   (''start_time'' \<notin> dom p \<and> ''end_time'' \<notin> dom p \<longrightarrow>
      create_partial_event_body F I (p(''timezone'' := z)) = create_partial_event_body F I p) \<and>
   drop_start_end (create_partial_event_body F I (p(''timezone'' := z))) =
     drop_start_end (create_partial_event_body F I p)"
  using partial_nothing_present[of p F I] partial_timezone_irrelevant[of p F I z]
    partial_timezone_only_start_end[of F I p z]
  by blast

theorem partial_body_without_fields_witness:
  "create_partial_event_body fromisoformat_basic isoformat_basic id_timezone_parameters =
     Inr Map.empty \<and>
   create_partial_event_body fromisoformat_basic isoformat_basic
     ([''indico_event_id'' \<mapsto> ''1234567890''](''timezone'' := Some ''UTC'')) =
   create_partial_event_body fromisoformat_basic isoformat_basic
     [''indico_event_id'' \<mapsto> ''1234567890'']"
  using partial_body_without_fields[of id_timezone_parameters fromisoformat_basic isoformat_basic None]
    partial_body_without_fields[of "[''indico_event_id'' \<mapsto> ''1234567890'']" fromisoformat_basic isoformat_basic
      "Some ''UTC''"]
  by (simp add: id_timezone_parameters_def)

text \<open>
  C10. A body returned by \<^verbatim>\<open>create_partial_event_body\<close> never contains the keys
  \<^verbatim>\<open>attendees\<close>, \<^verbatim>\<open>allowNewTimeProposals\<close>, \<^verbatim>\<open>isOnlineMeeting\<close> or \<^verbatim>\<open>onlineMeetingProvider\<close>,
  and its keys are among \<^verbatim>\<open>subject\<close>, \<^verbatim>\<open>body\<close>, \<^verbatim>\<open>start\<close>, \<^verbatim>\<open>end\<close>, \<^verbatim>\<open>location\<close> and
  \<^verbatim>\<open>onlineMeetingUrl\<close>. Consequently, merging it over any object leaves the four fixed
  fields of that object as they were.
\<close>

theorem partial_body_never_has_fixed_fields:
  assumes "create_partial_event_body F I p = Inr b"
  shows "''attendees'' \<notin> dom b \<and> ''allowNewTimeProposals'' \<notin> dom b \<and>
    ''isOnlineMeeting'' \<notin> dom b \<and> ''onlineMeetingProvider'' \<notin> dom b \<and>
    dom b \<subseteq> {''subject'', ''body'', ''start'', ''end'', ''location'', ''onlineMeetingUrl''} \<and>
    (\<forall>k \<in> fixed_constant_fields. (created ++ b) k = created k)"
proof -
  have d: "dom b = spec_partial_keys p"
    using assms by (rule dom_create_partial_event_body)
  have s: "dom b \<subseteq> partial_fields" and n: "dom b \<inter> fixed_constant_fields = {}"
    unfolding d by (rule spec_partial_keys_subset, rule spec_partial_keys_not_fixed)
  have m: "(created ++ b) k = created k" if "k \<in> fixed_constant_fields" for k
    using n that by (auto simp: map_add_def split: option.splits)
  from s n m show ?thesis
    by (auto simp: partial_fields_def fixed_constant_fields_def)
qed

theorem partial_body_never_has_fixed_fields_witness:
  "create_partial_event_body fromisoformat_basic isoformat_basic sample_event_parameters =
     Inr sample_partial_body \<and>
   ''attendees'' \<notin> dom sample_partial_body \<and>
   ''allowNewTimeProposals'' \<notin> dom sample_partial_body \<and>
   ''isOnlineMeeting'' \<notin> dom sample_partial_body \<and>
   ''onlineMeetingProvider'' \<notin> dom sample_partial_body \<and>
   dom sample_partial_body \<subseteq>
     {''subject'', ''body'', ''start'', ''end'', ''location'', ''onlineMeetingUrl''}"
  using partial_body_never_has_fixed_fields[OF sample_create_partial_event_body] sample_create_partial_event_body
  by simp

section \<open>The events component: requests and results\<close>

lemma get_event_by_zoom_id_eq:
  assumes "prov s (list_request user_id (zoom_query zoom_id) h) = (Inr response, s')"
  shows "get_event_by_zoom_id prov zoom_query user_id zoom_id h (s, log) =
    ((case odata_count response of
        Inl e \<Rightarrow> Inl e
      | Inr count \<Rightarrow> if count = 0 then Inl NotFoundError else first_value response),
     (s', log @ [list_request user_id (zoom_query zoom_id) h]))"
  using assms
  by (simp add: get_event_by_zoom_id_def list_events_def make_request_def split: sum.splits)

lemma odata_count_not_NotFoundError: "odata_count response \<noteq> Inl NotFoundError"
  by (simp add: odata_count_def split: json.splits option.splits)

lemma first_value_not_NotFoundError: "first_value response \<noteq> Inl NotFoundError"
  by (simp add: first_value_def split: option.splits list.splits)

lemma get_event_zoom_id_eq:
  assumes "prov s (get_request user_id event_id h) = (Inr event, s')"
  shows "get_event_zoom_id prov user_id event_id h (s, log) =
    (zoom_id_property event, (s', log @ [get_request user_id event_id h]))"
  using assms by (simp add: get_event_zoom_id_def get_event_def make_request_def)

lemma find_no_match:
  assumes "\<not> list_ex P xs"
  shows "find P xs = None"
  using assms by (simp add: find_None_iff list_ex_iff)






lemma no_event_list:
  "provider_no_event () (list_request ''user_id'' q h) = (Inr no_event_response, ())"
  by (simp add: provider_no_event_def list_request_def events_path_def)

lemma two_events_list:
  "provider_two_events () (list_request ''user_id'' q h) = (Inr two_events_response, ())"
  by (simp add: provider_two_events_def list_request_def events_path_def)


lemma one_event_get:
  "provider_one_event () (get_request ''user_id'' ''event_id'' h) = (Inr stored_event, ())"
  by (simp add: provider_one_event_def get_request_def event_path_def events_path_def)



lemma no_event_count: "odata_count no_event_response = Inr 0"
  by (simp add: odata_count_def no_event_response_def)

lemma two_events_count: "odata_count two_events_response = Inr 2"
  by (simp add: odata_count_def two_events_response_def)

lemma two_events_value:
  "value_list two_events_response =
     Some [JObj [''subject'' \<mapsto> JStr ''zoom_id_1''], JObj [''subject'' \<mapsto> JStr ''zoom_id_2'']]"
  by (simp add: value_list_def two_events_response_def)




lemma stored_event_properties:
  "extended_properties stored_event =
     Some [JObj [''id'' \<mapsto> JStr ''String {66f5a359-4659-4830-9070-00040ec6ac6e} Name ZoomId'',
                 ''value'' \<mapsto> JStr ''1234567890'']]"
  by (simp add: extended_properties_def stored_event_def)

lemma stored_entry_matches:
  "find is_zoom_id_entry
     [JObj [''id'' \<mapsto> JStr ''String {66f5a359-4659-4830-9070-00040ec6ac6e} Name ZoomId'',
            ''value'' \<mapsto> JStr ''1234567890'']] =
   Some (JObj [''id'' \<mapsto> JStr ''String {66f5a359-4659-4830-9070-00040ec6ac6e} Name ZoomId'',
               ''value'' \<mapsto> JStr ''1234567890''])"
  by (simp add: is_zoom_id_entry_def)

lemma stored_entry_value:
  "entry_value
     (JObj [''id'' \<mapsto> JStr ''String {66f5a359-4659-4830-9070-00040ec6ac6e} Name ZoomId'',
            ''value'' \<mapsto> JStr ''1234567890'']) = Inr ''1234567890''"
  by (simp add: entry_value_def)




lemma update_parameters_completes_test:
  "update_parameters = test_update_parameters(''indico_event_id'' \<mapsto> ''1234567890'')"
  by (rule ext) (simp add: update_parameters_def sample_event_parameters_def
      test_update_parameters_def)





section \<open>The claims about the events component\<close>

text \<open>
  C1. Whenever the provider answers the list request of \<^verbatim>\<open>get_event_by_zoom_id\<close> with a
  response, the call raises \<^verbatim>\<open>NotFoundError\<close> if and only if the response's \<^verbatim>\<open>@odata.count\<close>
  is 0; when the count is another number and \<^verbatim>\<open>value\<close> has a first element, the call
  returns exactly that element, whatever the later elements are.
\<close>

theorem get_event_by_zoom_id_first_match:
  assumes "prov s (list_request user_id (zoom_query zoom_id) h) = (Inr response, s')"
  shows "(fst (get_event_by_zoom_id prov zoom_query user_id zoom_id h (s, log)) = Inl NotFoundError
            \<longleftrightarrow> odata_count response = Inr 0) \<and>
         (\<forall>count x xs. odata_count response = Inr count \<and> count \<noteq> 0 \<and>
             value_list response = Some (x # xs) \<longrightarrow>
             fst (get_event_by_zoom_id prov zoom_query user_id zoom_id h (s, log)) = Inr x)"
proof (intro conjI allI impI)
  show "fst (get_event_by_zoom_id prov zoom_query user_id zoom_id h (s, log)) = Inl NotFoundError
            \<longleftrightarrow> odata_count response = Inr 0"
    unfolding get_event_by_zoom_id_eq[where prov = prov and s = s and zoom_query = zoom_query and zoom_id = zoom_id, OF assms]
    using odata_count_not_NotFoundError[of response] first_value_not_NotFoundError[of response]
    by (cases "odata_count response") auto
next
  fix count x xs
  assume "odata_count response = Inr count \<and> count \<noteq> 0 \<and> value_list response = Some (x # xs)"
  then show "fst (get_event_by_zoom_id prov zoom_query user_id zoom_id h (s, log)) = Inr x"
    unfolding get_event_by_zoom_id_eq[where prov = prov and s = s and zoom_query = zoom_query and zoom_id = zoom_id, OF assms]
    by (simp add: first_value_def)
qed

theorem get_event_by_zoom_id_first_match_witness:
  "fst (get_event_by_zoom_id provider_no_event sample_zoom_query ''user_id'' ''zoom_id''
          Map.empty ((), [])) = Inl NotFoundError \<and>
   fst (get_event_by_zoom_id provider_two_events sample_zoom_query ''user_id'' ''zoom_id_1''
          test_headers ((), [])) = Inr (JObj [''subject'' \<mapsto> JStr ''zoom_id_1''])"
proof (rule conjI)
  show "fst (get_event_by_zoom_id provider_no_event sample_zoom_query ''user_id'' ''zoom_id''
          Map.empty ((), [])) = Inl NotFoundError"
    using get_event_by_zoom_id_first_match[where prov = provider_no_event and s = "()" and zoom_query = sample_zoom_query
        and zoom_id = "''zoom_id''" and log = "[]", OF no_event_list] no_event_count
    by simp
next
  have "odata_count two_events_response = Inr 2 \<and> (2::int) \<noteq> 0 \<and>
    value_list two_events_response =
      Some (JObj [''subject'' \<mapsto> JStr ''zoom_id_1''] # [JObj [''subject'' \<mapsto> JStr ''zoom_id_2'']])"
    by (simp add: two_events_count two_events_value)
  with get_event_by_zoom_id_first_match[where prov = provider_two_events and s = "()" and zoom_query = sample_zoom_query
        and zoom_id = "''zoom_id_1''" and log = "[]", OF two_events_list]
  show "fst (get_event_by_zoom_id provider_two_events sample_zoom_query ''user_id'' ''zoom_id_1''
          test_headers ((), [])) = Inr (JObj [''subject'' \<mapsto> JStr ''zoom_id_1''])"
    by blast
qed

text \<open>
  C7. \<^verbatim>\<open>get_event_zoom_id\<close> issues one GET for the event by its provider id. On the event it
  receives, it fails with a lookup error when \<^verbatim>\<open>singleValueExtendedProperties\<close> is absent or
  no entry's id matches the \<^verbatim>\<open>Name ZoomId\<close> pattern, and it returns the value of the first
  entry whose id matches.
\<close>

theorem get_event_zoom_id_lookup:
  assumes "prov s (get_request user_id event_id h) = (Inr event, s')"
  shows "snd (get_event_zoom_id prov user_id event_id h (s, log)) =
           (s', log @ [get_request user_id event_id h]) \<and>
         (extended_properties event = None \<longrightarrow>
            fst (get_event_zoom_id prov user_id event_id h (s, log)) = Inl LookupError) \<and>
         (\<forall>ps. extended_properties event = Some ps \<and> \<not> list_ex is_zoom_id_entry ps \<longrightarrow>
            fst (get_event_zoom_id prov user_id event_id h (s, log)) = Inl LookupError) \<and>
         (\<forall>ps entry v. extended_properties event = Some ps \<and>
              find is_zoom_id_entry ps = Some entry \<and> entry_value entry = Inr v \<longrightarrow>
            fst (get_event_zoom_id prov user_id event_id h (s, log)) = Inr v)"
  unfolding get_event_zoom_id_eq[where prov = prov and s = s, OF assms]
  by (auto simp: zoom_id_property_def find_no_match)

theorem get_event_zoom_id_lookup_witness:
  "get_event_zoom_id provider_one_event ''user_id'' ''event_id'' test_headers ((), []) =
     (Inr ''1234567890'', ((), [get_request ''user_id'' ''event_id'' test_headers]))"
proof -
  note t = get_event_zoom_id_lookup[where prov = provider_one_event and s = "()" and log = "[]", OF one_event_get]
  have "extended_properties stored_event =
      Some [JObj [''id'' \<mapsto> JStr ''String {66f5a359-4659-4830-9070-00040ec6ac6e} Name ZoomId'',
                  ''value'' \<mapsto> JStr ''1234567890'']] \<and>
    find is_zoom_id_entry
      [JObj [''id'' \<mapsto> JStr ''String {66f5a359-4659-4830-9070-00040ec6ac6e} Name ZoomId'',
             ''value'' \<mapsto> JStr ''1234567890'']] =
      Some (JObj [''id'' \<mapsto> JStr ''String {66f5a359-4659-4830-9070-00040ec6ac6e} Name ZoomId'',
                  ''value'' \<mapsto> JStr ''1234567890'']) \<and>
    entry_value
      (JObj [''id'' \<mapsto> JStr ''String {66f5a359-4659-4830-9070-00040ec6ac6e} Name ZoomId'',
             ''value'' \<mapsto> JStr ''1234567890'']) = Inr ''1234567890''"
    by (simp only: stored_event_properties stored_entry_matches stored_entry_value simp_thms)
  with t have
    "fst (get_event_zoom_id provider_one_event ''user_id'' ''event_id'' test_headers ((), [])) =
       Inr ''1234567890''"
    "snd (get_event_zoom_id provider_one_event ''user_id'' ''event_id'' test_headers ((), [])) =
       ((), [] @ [get_request ''user_id'' ''event_id'' test_headers])"
    by blast+
  then show ?thesis
    by (simp add: prod_eq_iff)
qed




end
